theory Spec2Isabelle
  imports Main
begin

section \<open>Values of the wire protocols\<close>

text \<open>
  Every frame and event of the relay is a JSON value that the Python code reads as nested
  dictionaries. An object is kept as an association list in key order and read with
  \<open>map_of\<close>; a parsed object does not repeat a key. Numbers are restricted to integers:
  no code path of the embedded functions computes with a number read from a frame.
\<close>

datatype json =
    JNull
  | JBool bool
  | JInt int
  | JStr string
  | JList "json list"
  | JDict "(string \<times> json) list"

text \<open>
  The exceptions that the embedded code can raise. Each constructor carries what Python's
  \<open>str(e)\<close> prints, because two handlers send that text back to the model.
\<close>

datatype py_error =
    JSONDecodeError string
  | AttributeError string string
  | TypeError string
  | KeyError string
  | IndexError string
  | TransportError string

fun type_name :: "json \<Rightarrow> string" where
  "type_name JNull = ''NoneType''"
| "type_name (JBool b) = ''bool''"
| "type_name (JInt n) = ''int''"
| "type_name (JStr s) = ''str''"
| "type_name (JList xs) = ''list''"
| "type_name (JDict kvs) = ''dict''"

fun str_of_error :: "py_error \<Rightarrow> string" where
  "str_of_error (JSONDecodeError m) = m"
| "str_of_error (AttributeError t a) =
     [CHR 0x27] @ t @ [CHR 0x27] @ '' object has no attribute '' @ [CHR 0x27] @ a @ [CHR 0x27]"
| "str_of_error (TypeError m) = m"
| "str_of_error (KeyError k) = k"
| "str_of_error (IndexError m) = m"
| "str_of_error (TransportError m) = m"

text \<open>Python truthiness, as used by \<open>if call_sid:\<close>, \<open>if audio_payload and ...\<close>, \<open>if content:\<close>.\<close>

fun py_truthy :: "json \<Rightarrow> bool" where
  "py_truthy JNull = False"
| "py_truthy (JBool b) = b"
| "py_truthy (JInt n) = (n \<noteq> 0)"
| "py_truthy (JStr s) = (s \<noteq> [])"
| "py_truthy (JList xs) = (xs \<noteq> [])"
| "py_truthy (JDict kvs) = (kvs \<noteq> [])"

text \<open>\<open>d.get(k, default)\<close>: only a dictionary has the method.\<close>

fun py_get :: "json \<Rightarrow> string \<Rightarrow> json \<Rightarrow> py_error + json" where
  "py_get (JDict kvs) k d = Inr (case map_of kvs k of None \<Rightarrow> d | Some v \<Rightarrow> v)"
| "py_get JNull k d = Inl (AttributeError (type_name JNull) ''get'')"
| "py_get (JBool b) k d = Inl (AttributeError (type_name (JBool b)) ''get'')"
| "py_get (JInt n) k d = Inl (AttributeError (type_name (JInt n)) ''get'')"
| "py_get (JStr s) k d = Inl (AttributeError (type_name (JStr s)) ''get'')"
| "py_get (JList xs) k d = Inl (AttributeError (type_name (JList xs)) ''get'')"

text \<open>\<open>content[0]\<close> on whatever value \<open>content\<close> holds.\<close>

fun py_index0 :: "json \<Rightarrow> py_error + json" where
  "py_index0 (JList []) = Inl (IndexError ''list index out of range'')"
| "py_index0 (JList (x # xs)) = Inr x"
| "py_index0 (JStr []) = Inl (IndexError ''string index out of range'')"
| "py_index0 (JStr (c # cs)) = Inr (JStr [c])"
| "py_index0 (JDict kvs) = Inl (KeyError ''0'')"
| "py_index0 JNull =
     Inl (TypeError ([CHR 0x27] @ ''NoneType'' @ [CHR 0x27] @ '' object is not subscriptable''))"
| "py_index0 (JBool b) =
     Inl (TypeError ([CHR 0x27] @ ''bool'' @ [CHR 0x27] @ '' object is not subscriptable''))"
| "py_index0 (JInt n) =
     Inl (TypeError ([CHR 0x27] @ ''int'' @ [CHR 0x27] @ '' object is not subscriptable''))"

text \<open>
  A value used as a dictionary key. Lists and dictionaries are unhashable; \<open>True\<close> and
  \<open>1\<close> (and \<open>False\<close> and \<open>0\<close>) are the same key.
\<close>

fun dict_key :: "json \<Rightarrow> py_error + json" where
  "dict_key JNull = Inr JNull"
| "dict_key (JBool b) = Inr (JInt (if b then 1 else 0))"
| "dict_key (JInt n) = Inr (JInt n)"
| "dict_key (JStr s) = Inr (JStr s)"
| "dict_key (JList xs) =
     Inl (TypeError (''unhashable type: '' @ [CHR 0x27] @ ''list'' @ [CHR 0x27]))"
| "dict_key (JDict kvs) =
     Inl (TypeError (''unhashable type: '' @ [CHR 0x27] @ ''dict'' @ [CHR 0x27]))"

text \<open>
  What the code takes from outside the repository: the JSON parser and printer of the
  standard library, the formatting of a non-string value inside an f-string, the clock
  (as the \<open>%Y%m%d%H%M%S\<close> text used in ticket numbers), the session configuration
  table, and the order query that \<open>get_order_details\<close> wraps in its \<open>try\<close> block.
\<close>

record env =
  loads :: "string \<Rightarrow> py_error + json"
  dumps :: "json \<Rightarrow> string"
  repr :: "json \<Rightarrow> string"
  utcnow_stamp :: string
  agent_session :: json
  order_query :: "json \<Rightarrow> py_error + json"

text \<open>\<open>json.loads(x)\<close> on a value taken from an event: only a string is accepted.\<close>

definition json_loads :: "env \<Rightarrow> json \<Rightarrow> py_error + json" where
  "json_loads e v =
     (case v of
        JStr s \<Rightarrow> loads e s
      | _ \<Rightarrow> Inl (TypeError (''the JSON object must be str, bytes or bytearray, not ''
                               @ type_name v)))"

text \<open>\<open>f"{x}"\<close>: a string is inserted as it is, anything else through its printed form.\<close>

definition py_str :: "env \<Rightarrow> json \<Rightarrow> string" where
  "py_str e v = (case v of JStr s \<Rightarrow> s | _ \<Rightarrow> repr e v)"


section \<open>The model transport\<close>

text \<open>
  The connection object of the model client library and the telephony web socket are
  outside the repository. Each is a channel that records, in order, what it accepted, and
  that may break: \<open>capacity = Some n\<close> accepts \<open>n\<close> more messages and then raises on
  every send, \<open>capacity = None\<close> never breaks.
\<close>

record channel =
  sent :: "json list"
  capacity :: "nat option"

definition chan_send :: "json \<Rightarrow> channel \<Rightarrow> py_error option \<times> channel" where
  "chan_send cmd c =
     (case capacity c of
        None \<Rightarrow> (None, c\<lparr>sent := sent c @ [cmd]\<rparr>)
      | Some 0 \<Rightarrow> (Some (TransportError ''connection closed''), c)
      | Some (Suc n) \<Rightarrow> (None, c\<lparr>sent := sent c @ [cmd], capacity := Some n\<rparr>))"



definition audio_append :: "json \<Rightarrow> json" where
  "audio_append audio_data =
     JDict [(''type'', JStr ''input_audio_buffer.append''), (''audio'', audio_data)]"

definition function_output :: "env \<Rightarrow> json \<Rightarrow> json \<Rightarrow> json" where
  "function_output e call_id result =
     JDict [(''type'', JStr ''conversation.item.create''),
            (''item'', JDict [(''type'', JStr ''function_call_output''),
                              (''call_id'', call_id),
                              (''output'', JStr (dumps e result))])]"

definition response_create :: json where
  "response_create = JDict [(''type'', JStr ''response.create'')]"



definition send_audio :: "json \<Rightarrow> channel \<Rightarrow> py_error option \<times> channel" where
  "send_audio audio_data c = chan_send (audio_append audio_data) c"

definition send_function_result ::
  "env \<Rightarrow> json \<Rightarrow> json \<Rightarrow> channel \<Rightarrow> py_error option \<times> channel" where
  "send_function_result e call_id result c =
     (case chan_send (function_output e call_id result) c of
        (Some err, c1) \<Rightarrow> (Some err, c1)
      | (None, c1) \<Rightarrow> chan_send response_create c1)"

section \<open>The persistence service\<close>

text \<open>
  \<open>DatabaseService\<close> keeps three dictionaries. Records are Python dictionaries, kept here
  as association lists. The wall-clock fields of the records (\<open>start_time\<close>,
  \<open>end_time\<close>, \<open>duration\<close>, \<open>created_at\<close>, \<open>timestamp\<close>) are left out: they are
  written and never read by the embedded code.
\<close>

type_synonym pydict = "(string \<times> json) list"

record database =
  calls_cache :: "json \<rightharpoonup> pydict"
  conversations_cache :: "json \<rightharpoonup> pydict list"
  tickets_cache :: "string \<rightharpoonup> pydict"

definition dict_get :: "pydict \<Rightarrow> string \<Rightarrow> json \<Rightarrow> json" where
  "dict_get kvs k d = (case map_of kvs k of None \<Rightarrow> d | Some v \<Rightarrow> v)"

text \<open>\<open>d[k] = v\<close> on a dictionary: an existing key keeps its place.\<close>

fun dict_set :: "pydict \<Rightarrow> string \<Rightarrow> json \<Rightarrow> pydict" where
  "dict_set [] k v = [(k, v)]"
| "dict_set ((k', v') # kvs) k v =
     (if k' = k then (k, v) # kvs else (k', v') # dict_set kvs k v)"

definition create_call_record :: "json \<Rightarrow> json \<Rightarrow> database \<Rightarrow> py_error + database" where
  "create_call_record call_sid call_data db =
     (case call_data of
        JDict kvs \<Rightarrow>
          (let record =
                 [(''call_sid'', call_sid),
                  (''from_number'', dict_get kvs ''from'' (JStr [])),
                  (''to_number'', dict_get kvs ''to'' (JStr [])),
                  (''status'', JStr ''in-progress''),
                  (''stream_sid'', dict_get kvs ''streamSid'' JNull),
                  (''custom_parameters'', dict_get kvs ''customParameters'' (JDict []))]
           in case dict_key call_sid of
                Inl err \<Rightarrow> Inl err
              | Inr k \<Rightarrow> Inr (db\<lparr>calls_cache := (calls_cache db)(k \<mapsto> record)\<rparr>))
      | _ \<Rightarrow> Inl (AttributeError (type_name call_data) ''get''))"

definition end_call_record :: "json \<Rightarrow> database \<Rightarrow> py_error + database" where
  "end_call_record call_sid db =
     (case dict_key call_sid of
        Inl err \<Rightarrow> Inl err
      | Inr k \<Rightarrow>
          (case calls_cache db k of
             None \<Rightarrow> Inr db
           | Some record \<Rightarrow>
               Inr (db\<lparr>calls_cache :=
                      (calls_cache db)(k \<mapsto> dict_set record ''status'' (JStr ''completed''))\<rparr>)))"

definition log_conversation :: "json \<Rightarrow> json \<Rightarrow> database \<Rightarrow> py_error + database" where
  "log_conversation call_sid conversation_item db =
     (case conversation_item of
        JDict kvs \<Rightarrow>
          (let log_entry =
                 [(''call_sid'', call_sid),
                  (''item_id'', dict_get kvs ''id'' JNull),
                  (''item_type'', dict_get kvs ''type'' JNull),
                  (''role'', dict_get kvs ''role'' JNull),
                  (''content'', dict_get kvs ''content'' (JList []))]
           in case dict_key call_sid of
                Inl err \<Rightarrow> Inl err
              | Inr k \<Rightarrow>
                  Inr (db\<lparr>conversations_cache :=
                         (conversations_cache db)
                           (k \<mapsto> (case conversations_cache db k of
                                     None \<Rightarrow> [] | Some es \<Rightarrow> es) @ [log_entry])\<rparr>))
      | _ \<Rightarrow> Inl (AttributeError (type_name conversation_item) ''get''))"

text \<open>The rupee sign of the mock prices, as its three UTF-8 bytes.\<close>

definition rupee :: string where
  "rupee = [CHR 0xE2, CHR 0x82, CHR 0xB9]"

definition mock_order :: "json \<Rightarrow> json" where
  "mock_order order_id =
     JDict [(''order_id'', order_id),
            (''status'', JStr ''Delivered''),
            (''order_date'', JStr ''2025-10-10''),
            (''delivery_date'', JStr ''2025-10-15''),
            (''items'', JList
               [JDict [(''name'', JStr ''Product A''), (''quantity'', JInt 1),
                       (''price'', JStr (rupee @ ''1,200''))],
                JDict [(''name'', JStr ''Product B''), (''quantity'', JInt 2),
                       (''price'', JStr (rupee @ ''650''))] ]),
            (''subtotal'', JStr (rupee @ ''2,500'')),
            (''shipping'', JStr (rupee @ ''0'')),
            (''total'', JStr (rupee @ ''2,500'')),
            (''payment_method'', JStr ''Credit Card''),
            (''shipping_address'', JStr ''123 Main St, Mumbai, 400001'')]"

text \<open>
  \<open>get_order_details\<close> runs the order query inside \<open>try\<close> and answers any exception with
  the not-found dictionary. The repository ships the mock query, which always answers.
\<close>

definition get_order_details :: "env \<Rightarrow> json \<Rightarrow> json" where
  "get_order_details e order_id =
     (case order_query e order_id of
        Inr order \<Rightarrow> order
      | Inl err \<Rightarrow> JDict [(''error'', JStr ''Order not found''), (''order_id'', order_id)])"

definition mock_order_query :: "json \<Rightarrow> py_error + json" where
  "mock_order_query order_id = Inr (mock_order order_id)"

text \<open>
  \<open>check_inventory\<close> builds its answer from literals and its arguments; nothing in its
  \<open>try\<close> block can raise.
\<close>

definition check_inventory :: "json \<Rightarrow> json \<Rightarrow> json" where
  "check_inventory product_name pincode =
     JDict [(''product'', product_name),
            (''available'', JBool True),
            (''stock_count'', JInt 45),
            (''delivery_estimate'',
               JStr (if py_truthy pincode then ''2-3 business days'' else ''3-5 business days'')),
            (''price'', JStr (rupee @ ''1,299'')),
            (''pincode_serviceable'', if py_truthy pincode then JBool True else JNull)]"

definition create_transfer_request ::
  "env \<Rightarrow> json \<Rightarrow> json \<Rightarrow> json \<Rightarrow> json \<Rightarrow> database \<Rightarrow> pydict \<times> database" where
  "create_transfer_request e call_sid reason context priority db =
     (let ticket_id = ''TXF-'' @ utcnow_stamp e;
          transfer_request =
            [(''ticket_id'', JStr ticket_id),
             (''call_sid'', call_sid),
             (''reason'', reason),
             (''context'', context),
             (''priority'', priority),
             (''status'', JStr ''queued''),
             (''assigned_agent'', JNull)]
      in (transfer_request,
          db\<lparr>tickets_cache := (tickets_cache db)(ticket_id \<mapsto> transfer_request)\<rparr>))"

definition create_support_ticket ::
  "env \<Rightarrow> json \<Rightarrow> json \<Rightarrow> json \<Rightarrow> json \<Rightarrow> json \<Rightarrow> database \<Rightarrow> pydict \<times> database" where
  "create_support_ticket e call_sid issue_type description customer_phone priority db =
     (let ticket_id = ''SUP-'' @ utcnow_stamp e;
          ticket =
            [(''ticket_id'', JStr ticket_id),
             (''call_sid'', call_sid),
             (''issue_type'', issue_type),
             (''description'', description),
             (''customer_phone'', customer_phone),
             (''priority'', priority),
             (''status'', JStr ''open''),
             (''assigned_agent'', JNull),
             (''resolution'', JNull)]
      in (ticket, db\<lparr>tickets_cache := (tickets_cache db)(ticket_id \<mapsto> ticket)\<rparr>))"

section \<open>The tool dispatcher\<close>

text \<open>
  \<open>execute_tool\<close> runs inside one \<open>try\<close>; its \<open>except Exception\<close> turns whatever was
  raised into the payload \<open>tool_error\<close>. The only statements outside the \<open>try\<close> create a
  logger and write a line, which cannot raise, so the result is always a payload.
\<close>

definition tool_error :: "py_error \<Rightarrow> json" where
  "tool_error err =
     JDict [(''error'', JStr (str_of_error err)),
            (''message'', JStr
               (''I encountered an error while processing your request. ''
                @ ''Let me try another way to help you.''))]"

definition unknown_function :: "env \<Rightarrow> json \<Rightarrow> json" where
  "unknown_function e function_name =
     JDict [(''error'', JStr (''Unknown function: '' @ py_str e function_name)),
            (''message'', JStr (''I'' @ [CHR 0x27] @ ''m so'' @ ''rry, I couldn''
                                @ [CHR 0x27] @ ''t process that request.''))]"

definition execute_tool :: "env \<Rightarrow> json \<Rightarrow> json \<Rightarrow> json \<Rightarrow> database \<Rightarrow> json \<times> database" where
  "execute_tool e function_name arguments call_sid db =
     (if function_name = JStr ''lookup_order'' then
        (case py_get arguments ''order_id'' JNull of
           Inl err \<Rightarrow> (tool_error err, db)
         | Inr order_id \<Rightarrow>
             (let result = get_order_details e order_id
              in case py_get result ''status'' (JStr ''unknown'') of
                   Inl err \<Rightarrow> (tool_error err, db)
                 | Inr status \<Rightarrow> (result, db)))
      else if function_name = JStr ''transfer_to_human'' then
        (case arguments of
           JDict args \<Rightarrow>
             (let reason = dict_get args ''reason'' JNull;
                  context = dict_get args ''customer_context'' JNull;
                  priority = dict_get args ''priority'' (JStr ''medium'');
                  (transfer_result, db') =
                     create_transfer_request e call_sid reason context priority db
              in (JDict [(''status'', JStr ''transfer_initiated''),
                         (''message'', JStr
                            (''Bilkul, main aapko ek moment mein humare team member se ''
                             @ ''connect kar deta hoon.'')),
                         (''ticket_id'', dict_get transfer_result ''ticket_id'' JNull),
                         (''estimated_wait_time'', JStr ''2-3 minutes'')], db'))
         | _ \<Rightarrow> (tool_error (AttributeError (type_name arguments) ''get''), db))
      else if function_name = JStr ''check_product_availability'' then
        (case arguments of
           JDict args \<Rightarrow>
             (check_inventory (dict_get args ''product_name'' JNull)
                              (dict_get args ''pincode'' JNull), db)
         | _ \<Rightarrow> (tool_error (AttributeError (type_name arguments) ''get''), db))
      else if function_name = JStr ''create_ticket'' then
        (case arguments of
           JDict args \<Rightarrow>
             (let issue_type = dict_get args ''issue_type'' JNull;
                  description = dict_get args ''description'' JNull;
                  customer_phone = dict_get args ''customer_phone'' JNull;
                  priority = dict_get args ''priority'' (JStr ''medium'');
                  (ticket, db') =
                     create_support_ticket e call_sid issue_type description
                       customer_phone priority db
              in (JDict [(''status'', JStr ''ticket_created''),
                         (''ticket_id'', dict_get ticket ''ticket_id'' JNull),
                         (''message'', JStr
                            (''Maine aapke liye ticket create kar diya hai. ''
                             @ ''Aapka ticket number hai ''
                             @ py_str e (dict_get ticket ''ticket_id'' JNull)
                             @ ''. Humari team 24 hours mein aapse contact karegi.''))], db'))
         | _ \<Rightarrow> (tool_error (AttributeError (type_name arguments) ''get''), db))
      else (unknown_function e function_name, db))"


section \<open>The call handler\<close>

text \<open>
  \<open>media_stream_handler\<close> owns the variables \<open>call_sid\<close>, \<open>stream_sid\<close> and
  \<open>call_logger\<close> that its two pumps share, the model connection and the telephony socket.
  The module keeps the registry \<open>active_sessions\<close> and the services. One record holds them
  all. Of \<open>call_logger\<close> the code only tests whether it is set. A session entry is the
  dictionary stored in the registry, without its connection handle and start time.
  \<open>transcript\<close> collects the role and text of every transcript line the call logger
  writes; the other log lines are not kept. \<open>calls\<close> records each invocation of
  \<open>cleanup_session\<close> and \<open>close_session\<close>, so that how often cleanup runs can be stated.
\<close>

datatype call = CleanupSession json | CloseSession string

record state =
  call_sid :: json
  stream_sid :: json
  call_logger :: bool
  session_id :: string
  active_sessions :: "json \<rightharpoonup> pydict"
  openai_ws :: channel
  websocket :: channel
  db_service :: database
  active_connections :: "string set"
  connection_closed :: bool
  transcript :: "(json \<times> json) list"
  twilio_done :: bool
  openai_done :: bool
  calls :: "call list"

text \<open>How the body of a pump's loop ends for one message.\<close>

datatype outcome = Continue | Break | Raised py_error

subsection \<open>Telephony to model\<close>

definition start_frame :: "json \<Rightarrow> state \<Rightarrow> outcome \<times> state" where
  "start_frame data s =
     (case py_get data ''start'' (JDict []) of
        Inl err \<Rightarrow> (Raised err, s)
      | Inr start_data \<Rightarrow>
     (case py_get start_data ''callSid'' JNull of
        Inl err \<Rightarrow> (Raised err, s)
      | Inr cs \<Rightarrow>
     (case py_get start_data ''streamSid'' JNull of
        Inl err \<Rightarrow> (Raised err, s\<lparr>call_sid := cs\<rparr>)
      | Inr ss \<Rightarrow>
     (let s1 = s\<lparr>call_sid := cs, stream_sid := ss, call_logger := True\<rparr>
      in case py_get start_data ''customParameters'' (JDict []) of
        Inl err \<Rightarrow> (Raised err, s1)
      | Inr custom_params \<Rightarrow>
     (case py_get custom_params ''from'' (JStr []) of
        Inl err \<Rightarrow> (Raised err, s1)
      | Inr from_number \<Rightarrow>
     (case dict_key cs of
        Inl err \<Rightarrow> (Raised err, s1)
      | Inr k \<Rightarrow>
     (let s2 = s1\<lparr>active_sessions := (active_sessions s1)
                    (k \<mapsto> [(''call_sid'', cs),
                          (''stream_sid'', ss),
                          (''openai_session_id'', JStr (session_id s1)),
                          (''from_number'', from_number)])\<rparr>
      in case create_call_record cs start_data (db_service s2) of
        Inl err \<Rightarrow> (Raised err, s2)
      | Inr db' \<Rightarrow> (Continue, s2\<lparr>db_service := db'\<rparr>))))))))"

text \<open>
  In the \<open>media\<close> branch the test \<open>audio_payload and openai_ws\<close> reads a connection that
  the handler has already opened, so only the payload decides.
\<close>

definition media_frame :: "json \<Rightarrow> state \<Rightarrow> outcome \<times> state" where
  "media_frame data s =
     (case py_get data ''media'' (JDict []) of
        Inl err \<Rightarrow> (Raised err, s)
      | Inr media_data \<Rightarrow>
     (case py_get media_data ''payload'' JNull of
        Inl err \<Rightarrow> (Raised err, s)
      | Inr audio_payload \<Rightarrow>
          if py_truthy audio_payload then
            (case send_audio audio_payload (openai_ws s) of
               (Some err, c) \<Rightarrow> (Raised err, s\<lparr>openai_ws := c\<rparr>)
             | (None, c) \<Rightarrow> (Continue, s\<lparr>openai_ws := c\<rparr>))
          else (Continue, s)))"

definition mark_frame :: "json \<Rightarrow> state \<Rightarrow> outcome \<times> state" where
  "mark_frame data s =
     (if call_logger s then
        (case py_get data ''mark'' (JDict []) of
           Inl err \<Rightarrow> (Raised err, s)
         | Inr mark \<Rightarrow>
             (case py_get mark ''name'' JNull of
                Inl err \<Rightarrow> (Raised err, s)
              | Inr name \<Rightarrow> (Continue, s)))
      else (Continue, s))"

definition stop_frame :: "state \<Rightarrow> outcome \<times> state" where
  "stop_frame s =
     (if py_truthy (call_sid s) then
        (case end_call_record (call_sid s) (db_service s) of
           Inl err \<Rightarrow> (Raised err, s)
         | Inr db' \<Rightarrow> (Break, s\<lparr>db_service := db'\<rparr>))
      else (Break, s))"

text \<open>The body of the loop of \<open>twilio_to_openai\<close>, for one text message of the socket.\<close>

definition twilio_to_openai :: "env \<Rightarrow> string \<Rightarrow> state \<Rightarrow> outcome \<times> state" where
  "twilio_to_openai e message s =
     (case loads e message of
        Inl err \<Rightarrow> (Raised err, s)
      | Inr data \<Rightarrow>
     (case py_get data ''event'' JNull of
        Inl err \<Rightarrow> (Raised err, s)
      | Inr event_type \<Rightarrow>
          if event_type = JStr ''start'' then start_frame data s
          else if event_type = JStr ''media'' then media_frame data s
          else if event_type = JStr ''mark'' then mark_frame data s
          else if event_type = JStr ''stop'' then stop_frame s
          else (Continue, s)))"

subsection \<open>Model to telephony\<close>

definition outbound_media :: "json \<Rightarrow> json \<Rightarrow> json" where
  "outbound_media sid audio_delta =
     JDict [(''event'', JStr ''media''),
            (''streamSid'', sid),
            (''media'', JDict [(''payload'', audio_delta)])]"

definition audio_delta_event :: "json \<Rightarrow> state \<Rightarrow> outcome \<times> state" where
  "audio_delta_event event s =
     (case py_get event ''delta'' (JStr []) of
        Inl err \<Rightarrow> (Raised err, s)
      | Inr audio_delta \<Rightarrow>
          if py_truthy (stream_sid s) \<and> py_truthy audio_delta then
            (case chan_send (outbound_media (stream_sid s) audio_delta) (websocket s) of
               (Some err, c) \<Rightarrow> (Raised err, s\<lparr>websocket := c\<rparr>)
             | (None, c) \<Rightarrow> (Continue, s\<lparr>websocket := c\<rparr>))
          else (Continue, s))"

text \<open>
  The transcript line of a message item: \<open>None\<close> when the code writes no line, the role
  and the text when it writes \<open>f"{role.upper()}: {text[:100]}"\<close>, an error when one of the
  reads raises.
\<close>

definition transcript_line :: "pydict \<Rightarrow> py_error + (json \<times> json) option" where
  "transcript_line item =
     (let role = dict_get item ''role'' (JStr []);
          content = dict_get item ''content'' (JList [])
      in if py_truthy content then
           (case py_index0 content of
              Inl err \<Rightarrow> Inl err
            | Inr c0 \<Rightarrow>
           (case py_get c0 ''type'' JNull of
              Inl err \<Rightarrow> Inl err
            | Inr ctype \<Rightarrow>
           (case (if ctype = JStr ''audio'' then py_get c0 ''transcript'' (JStr [])
                  else py_get c0 ''text'' (JStr [])) of
              Inl err \<Rightarrow> Inl err
            | Inr text \<Rightarrow>
                if py_truthy text then
                  (case role of
                     JStr r \<Rightarrow>
                       (case text of
                          JStr t \<Rightarrow> Inr (Some (role, text))
                        | JList ts \<Rightarrow> Inr (Some (role, text))
                        | JDict kvs \<Rightarrow>
                            Inl (TypeError (''unhashable type: '' @ [CHR 0x27] @ ''slice''
                                            @ [CHR 0x27]))
                        | _ \<Rightarrow>
                            Inl (TypeError ([CHR 0x27] @ type_name text @ [CHR 0x27]
                                            @ '' object is not subscriptable'')))
                   | _ \<Rightarrow> Inl (AttributeError (type_name role) ''upper''))
                else Inr None)))
         else Inr None)"

definition item_created_event :: "json \<Rightarrow> state \<Rightarrow> outcome \<times> state" where
  "item_created_event event s =
     (case py_get event ''item'' (JDict []) of
        Inl err \<Rightarrow> (Raised err, s)
      | Inr item \<Rightarrow>
     (case (if py_truthy (call_sid s)
            then log_conversation (call_sid s) item (db_service s)
            else Inr (db_service s)) of
        Inl err \<Rightarrow> (Raised err, s)
      | Inr db' \<Rightarrow>
     (let s1 = s\<lparr>db_service := db'\<rparr>
      in if call_logger s1 then
           (case item of
              JDict kvs \<Rightarrow>
                if dict_get kvs ''type'' JNull = JStr ''message'' then
                  (case transcript_line kvs of
                     Inl err \<Rightarrow> (Raised err, s1)
                   | Inr None \<Rightarrow> (Continue, s1)
                   | Inr (Some line) \<Rightarrow>
                       (Continue, s1\<lparr>transcript := transcript s1 @ [line]\<rparr>))
                else (Continue, s1)
            | _ \<Rightarrow> (Raised (AttributeError (type_name item) ''get''), s1))
         else (Continue, s1))))"

definition invalid_arguments :: json where
  "invalid_arguments = JDict [(''error'', JStr ''Invalid arguments'')]"

definition error_result :: "py_error \<Rightarrow> json" where
  "error_result err = JDict [(''error'', JStr (str_of_error err))]"

text \<open>
  A failure of \<open>send_function_result\<close> inside one of the two \<open>except\<close> handlers leaves
  the inner \<open>try\<close> and ends the pump.
\<close>

definition send_in_handler :: "env \<Rightarrow> json \<Rightarrow> json \<Rightarrow> state \<Rightarrow> outcome \<times> state" where
  "send_in_handler e call_id result s =
     (case send_function_result e call_id result (openai_ws s) of
        (Some err, c) \<Rightarrow> (Raised err, s\<lparr>openai_ws := c\<rparr>)
      | (None, c) \<Rightarrow> (Continue, s\<lparr>openai_ws := c\<rparr>))"

definition function_call_event :: "env \<Rightarrow> json \<Rightarrow> state \<Rightarrow> outcome \<times> state" where
  "function_call_event e event s =
     (case event of
        JDict kvs \<Rightarrow>
          (let function_name = dict_get kvs ''name'' JNull;
               call_id = dict_get kvs ''call_id'' JNull;
               arguments_str = dict_get kvs ''arguments'' (JStr ''{}'')
           in case json_loads e arguments_str of
                Inl (JSONDecodeError m) \<Rightarrow> send_in_handler e call_id invalid_arguments s
              | Inl err \<Rightarrow> send_in_handler e call_id (error_result err) s
              | Inr arguments \<Rightarrow>
                  (let (result, db') =
                         execute_tool e function_name arguments (call_sid s) (db_service s);
                       s1 = s\<lparr>db_service := db'\<rparr>
                   in case send_function_result e call_id result (openai_ws s1) of
                        (None, c) \<Rightarrow> (Continue, s1\<lparr>openai_ws := c\<rparr>)
                      | (Some err, c) \<Rightarrow>
                          send_in_handler e call_id (error_result err) (s1\<lparr>openai_ws := c\<rparr>)))
      | _ \<Rightarrow> (Raised (AttributeError (type_name event) ''get''), s))"

text \<open>The body of the loop of \<open>openai_to_twilio\<close>, for one event of the model connection.\<close>

definition openai_to_twilio :: "env \<Rightarrow> json \<Rightarrow> state \<Rightarrow> outcome \<times> state" where
  "openai_to_twilio e event s =
     (case py_get event ''type'' JNull of
        Inl err \<Rightarrow> (Raised err, s)
      | Inr event_type \<Rightarrow>
          if event_type = JStr ''response.audio.delta'' then audio_delta_event event s
          else if event_type = JStr ''response.audio.done'' then (Continue, s)
          else if event_type = JStr ''conversation.item.created'' then item_created_event event s
          else if event_type = JStr ''response.function_call_arguments.done''
            then function_call_event e event s
          else (Continue, s))"

subsection \<open>The two pumps, interleaved\<close>

text \<open>
  The pumps are coroutines that share the handler's variables. The run of a call is the
  sequence of what the two streams deliver, in the order the event loop hands it to the
  pumps; each message is handled to its end before the next one is taken. \<open>TelephonyClosed\<close>
  and \<open>ModelClosed\<close> say that a stream's iterator has ended. The \<open>try\<close> around each loop
  catches every exception of a body and ends that pump only; a pump that has ended takes
  no further message. \<open>asyncio.gather\<close> returns once both pumps have ended; a run is a
  finite list, and at its end both streams are taken to have ended.
\<close>

datatype input = Telephony string | TelephonyClosed | Model json | ModelClosed

fun pump_step :: "env \<Rightarrow> input \<Rightarrow> state \<Rightarrow> state" where
  "pump_step e (Telephony message) s =
     (if twilio_done s then s
      else (case twilio_to_openai e message s of
              (Continue, s') \<Rightarrow> s'
            | (Break, s') \<Rightarrow> s'\<lparr>twilio_done := True\<rparr>
            | (Raised err, s') \<Rightarrow> s'\<lparr>twilio_done := True\<rparr>))"
| "pump_step e TelephonyClosed s = s\<lparr>twilio_done := True\<rparr>"
| "pump_step e (Model event) s =
     (if openai_done s then s
      else (case openai_to_twilio e event s of
              (Continue, s') \<Rightarrow> s'
            | (Break, s') \<Rightarrow> s'\<lparr>openai_done := True\<rparr>
            | (Raised err, s') \<Rightarrow> s'\<lparr>openai_done := True\<rparr>))"
| "pump_step e ModelClosed s = s\<lparr>openai_done := True\<rparr>"

fun gather :: "env \<Rightarrow> input list \<Rightarrow> state \<Rightarrow> state" where
  "gather e [] s = s"
| "gather e (i # inputs) s = gather e inputs (pump_step e i s)"

subsection \<open>Cleanup\<close>






section \<open>Notions used to state the properties\<close>

text \<open>
  \<open>media_payload\<close> reads a parsed frame as the \<open>media\<close> branch does: the payload of a
  frame whose event is \<open>media\<close> and whose \<open>media\<close> field is a dictionary.
  \<open>media_payloads\<close> lists the payloads of the telephony frames of a run, in arrival order.
\<close>

fun media_payload :: "py_error + json \<Rightarrow> json option" where
  "media_payload (Inr (JDict kvs)) =
     (if dict_get kvs ''event'' JNull = JStr ''media'' then
        (case dict_get kvs ''media'' (JDict []) of
           JDict media_data \<Rightarrow> Some (dict_get media_data ''payload'' JNull)
         | _ \<Rightarrow> None)
      else None)"
| "media_payload other = None"

fun media_payloads :: "env \<Rightarrow> input list \<Rightarrow> json list" where
  "media_payloads e [] = []"
| "media_payloads e (Telephony message # inputs) =
     (case media_payload (loads e message) of
        Some p \<Rightarrow> p # media_payloads e inputs
      | None \<Rightarrow> media_payloads e inputs)"
| "media_payloads e (i # inputs) = media_payloads e inputs"

fun telephony_messages :: "input list \<Rightarrow> string list" where
  "telephony_messages [] = []"
| "telephony_messages (Telephony message # inputs) = message # telephony_messages inputs"
| "telephony_messages (i # inputs) = telephony_messages inputs"

definition is_audio_append :: "json \<Rightarrow> bool" where
  "is_audio_append cmd = (py_get cmd ''type'' JNull = Inr (JStr ''input_audio_buffer.append''))"

definition is_function_output :: "json \<Rightarrow> bool" where
  "is_function_output cmd = (py_get cmd ''type'' JNull = Inr (JStr ''conversation.item.create''))"

text \<open>
  A command sequence is \<open>paired\<close> when every tool result in it is directly followed by
  the directive to resume generation.
\<close>

fun paired :: "json list \<Rightarrow> bool" where
  "paired [] = True"
| "paired [c] = (\<not> is_function_output c)"
| "paired (c # d # cs) =
     (if is_function_output c then d = response_create \<and> paired cs else paired (d # cs))"


fun is_cleanup :: "call \<Rightarrow> bool" where
  "is_cleanup (CleanupSession cs) = True"
| "is_cleanup (CloseSession sid) = False"

subsection \<open>A concrete environment and concrete messages\<close>

text \<open>
  The examples of this development run in an environment whose parser knows the message
  texts below and rejects every other text, and whose printers know the values the
  examples print. The order query is the mock of the repository.
\<close>

definition start_CA1_MZ1 :: string where
  \<open>start_CA1_MZ1 =
     ''{"event":"start","start":{"callSid":"CA1","streamSid":"MZ1","customParameters":{"from":"+919876543210"}}}''\<close>

definition start_CA1_MZ2 :: string where
  \<open>start_CA1_MZ2 =
     ''{"event":"start","start":{"callSid":"CA1","streamSid":"MZ2","customParameters":{"from":"+919876543210"}}}''\<close>

definition media_AAA :: string where
  \<open>media_AAA = ''{"event":"media","media":{"payload":"AAA="}}''\<close>

definition media_empty :: string where
  \<open>media_empty = ''{"event":"media","media":{"payload":""}}''\<close>

definition stop_text :: string where
  \<open>stop_text = ''{"event":"stop"}''\<close>

definition order_args :: string where
  \<open>order_args = ''{"order_id":"ORD1"}''\<close>

definition start_json :: "string \<Rightarrow> string \<Rightarrow> json" where
  "start_json cs ss =
     JDict [(''event'', JStr ''start''),
            (''start'', JDict [(''callSid'', JStr cs), (''streamSid'', JStr ss),
               (''customParameters'', JDict [(''from'', JStr ''+919876543210'')])])]"

definition media_json :: "string \<Rightarrow> json" where
  "media_json p = JDict [(''event'', JStr ''media''), (''media'', JDict [(''payload'', JStr p)])]"

definition sample_loads :: "string \<Rightarrow> py_error + json" where
  "sample_loads text =
     (if text = start_CA1_MZ1 then Inr (start_json ''CA1'' ''MZ1'')
      else if text = start_CA1_MZ2 then Inr (start_json ''CA1'' ''MZ2'')
      else if text = media_AAA then Inr (media_json ''AAA='')
      else if text = media_empty then Inr (media_json [])
      else if text = stop_text then Inr (JDict [(''event'', JStr ''stop'')])
      else if text = order_args then Inr (JDict [(''order_id'', JStr ''ORD1'')])
      else Inl (JSONDecodeError ''Expecting value: line 1 column 1 (char 0)''))"

definition sample_dumps :: "json \<Rightarrow> string" where
  \<open>sample_dumps v =
     (if v = invalid_arguments then ''{"error": "Invalid arguments"}'' else ''{}'')\<close>

definition sample_env :: env where
  "sample_env =
     \<lparr>loads = sample_loads, dumps = sample_dumps, repr = (\<lambda>v. ''None''),
      utcnow_stamp = ''20251015120000'', agent_session = JDict [],
      order_query = mock_order_query\<rparr>"

definition failing_query :: "json \<Rightarrow> py_error + json" where
  "failing_query order_id = Inl (TransportError ''database unavailable'')"

definition new_channel :: channel where
  "new_channel = \<lparr>sent = [], capacity = None\<rparr>"

definition empty_database :: database where
  "empty_database =
     \<lparr>calls_cache = Map.empty, conversations_cache = Map.empty, tickets_cache = Map.empty\<rparr>"

text \<open>The state of a process that serves no call yet.\<close>

definition idle_state :: state where
  "idle_state =
     \<lparr>call_sid = JNull, stream_sid = JNull, call_logger = False, session_id = [],
      active_sessions = Map.empty, openai_ws = new_channel, websocket = new_channel,
      db_service = empty_database, active_connections = {}, connection_closed = False,
      transcript = [], twilio_done = False, openai_done = False, calls = []\<rparr>"



definition empty_item_event :: json where
  "empty_item_event =
     JDict [(''type'', JStr ''conversation.item.created''),
            (''item'', JDict [(''id'', JStr ''item1''), (''type'', JStr ''message''),
                              (''role'', JStr ''assistant''), (''content'', JList [])])]"


subsection \<open>Notions used in the proofs\<close>

text \<open>
  \<open>same_call\<close> lists what the model-to-telephony pump never writes, \<open>same_output\<close>
  what the telephony-to-model pump never writes. \<open>media_commands\<close> is what one parsed
  telephony frame makes the pump send to the model while the connection works.
\<close>

definition same_call :: "state \<Rightarrow> state \<Rightarrow> bool" where
  "same_call s r \<longleftrightarrow>
     call_sid r = call_sid s \<and> stream_sid r = stream_sid s \<and> call_logger r = call_logger s
     \<and> session_id r = session_id s \<and> active_sessions r = active_sessions s
     \<and> twilio_done r = twilio_done s \<and> openai_done r = openai_done s
     \<and> calls r = calls s \<and> active_connections r = active_connections s
     \<and> connection_closed r = connection_closed s"

definition media_commands :: "py_error + json \<Rightarrow> json list" where
  "media_commands r =
     (case media_payload r of
        Some p \<Rightarrow> if py_truthy p then [audio_append p] else []
      | None \<Rightarrow> [])"


section \<open>How one message changes the state\<close>

lemma chan_send_healthy:
  "capacity c = None \<Longrightarrow> chan_send cmd c = (None, c\<lparr>sent := sent c @ [cmd]\<rparr>)"
  by (simp add: chan_send_def)

lemma send_function_result_healthy:
  "capacity c = None \<Longrightarrow>
   send_function_result e call_id result c =
     (None, c\<lparr>sent := sent c @ [function_output e call_id result, response_create]\<rparr>)"
  by (simp add: send_function_result_def chan_send_healthy)

lemma send_in_handler_healthy:
  "capacity (openai_ws s) = None \<Longrightarrow>
   send_in_handler e call_id result s =
     (Continue, s\<lparr>openai_ws := (openai_ws s)
        \<lparr>sent := sent (openai_ws s) @ [function_output e call_id result, response_create]\<rparr>\<rparr>)"
  by (simp add: send_in_handler_def send_function_result_healthy)


lemma function_call_event_healthy:
  assumes "capacity (openai_ws s) = None"
  shows "\<exists>result. fst (function_call_event e (JDict kvs) s) = Continue \<and>
     openai_ws (snd (function_call_event e (JDict kvs) s)) =
       (openai_ws s)\<lparr>sent := sent (openai_ws s)
            @ [function_output e (dict_get kvs ''call_id'' JNull) result, response_create]\<rparr>"
proof (cases "json_loads e (dict_get kvs ''arguments'' (JStr ''{}''))")
  case (Inl err)
  show ?thesis
  proof (cases err)
    case (JSONDecodeError m)
    with Inl assms show ?thesis
      by (intro exI[of _ invalid_arguments])
         (simp add: function_call_event_def send_in_handler_healthy)
  qed (use Inl assms in \<open>(intro exI[of _ "error_result err"],
         simp add: function_call_event_def send_in_handler_healthy)+\<close>)
next
  case (Inr arguments)
  obtain result db' where
    ex: "execute_tool e (dict_get kvs ''name'' JNull) arguments (call_sid s) (db_service s)
           = (result, db')"
    by (cases "execute_tool e (dict_get kvs ''name'' JNull) arguments (call_sid s) (db_service s)")
  show ?thesis using assms Inr ex
    by (intro exI[of _ result])
       (simp add: function_call_event_def send_function_result_healthy)
qed


lemma send_in_handler_same: "same_call s (snd (send_in_handler e cid res s))"
  by (simp add: send_in_handler_def same_call_def split: prod.splits option.splits)

lemma audio_delta_same: "same_call s (snd (audio_delta_event ev s))"
  by (simp add: audio_delta_event_def same_call_def split: sum.splits prod.splits option.splits)

lemma item_created_same: "same_call s (snd (item_created_event ev s))"
  by (simp add: item_created_event_def same_call_def Let_def
           split: sum.splits prod.splits option.splits json.splits)

lemma function_call_same: "same_call s (snd (function_call_event e ev s))"
proof -
  have a: "\<And>cid res s'. same_call s s' \<Longrightarrow> same_call s (snd (send_in_handler e cid res s'))"
    using send_in_handler_same by (simp add: same_call_def)
  show ?thesis
    by (auto simp: function_call_event_def Let_def intro!: a
           split: sum.splits prod.splits option.splits json.splits py_error.splits)
       (simp_all add: same_call_def)
qed

lemma openai_to_twilio_same: "same_call s (snd (openai_to_twilio e ev s))"
  using audio_delta_same[of s ev] item_created_same[of s ev] function_call_same[of s e ev]
  by (simp add: openai_to_twilio_def split: sum.splits) (simp add: same_call_def)







lemma media_frame_healthy:
  assumes "capacity (openai_ws s) = None"
  shows "media_frame (JDict kvs) s =
     (case dict_get kvs ''media'' (JDict []) of
        JDict media_data \<Rightarrow>
          (let p = dict_get media_data ''payload'' JNull
           in if py_truthy p
              then (Continue, s\<lparr>openai_ws := (openai_ws s)
                      \<lparr>sent := sent (openai_ws s) @ [audio_append p]\<rparr>\<rparr>)
              else (Continue, s))
      | other \<Rightarrow> (Raised (AttributeError (type_name other) ''get''), s))"
  using assms
  by (simp add: media_frame_def dict_get_def send_audio_def chan_send_healthy
           split: json.splits)

lemma twilio_media_healthy:
  assumes "capacity (openai_ws s) = None" "media_payload (loads e m) = Some p"
  shows "twilio_to_openai e m s =
     (Continue, if py_truthy p
        then s\<lparr>openai_ws := (openai_ws s)\<lparr>sent := sent (openai_ws s) @ [audio_append p]\<rparr>\<rparr>
        else s)"
proof -
  from assms(2) obtain kvs where l: "loads e m = Inr (JDict kvs)"
    by (cases "loads e m"; cases "projr (loads e m)") auto
  from assms(2) l obtain media_data where
    ev: "dict_get kvs ''event'' JNull = JStr ''media''" and
    md: "dict_get kvs ''media'' (JDict []) = JDict media_data" and
    p: "p = dict_get media_data ''payload'' JNull"
    by (auto split: if_splits json.splits)
  have g: "py_get (JDict kvs) ''event'' JNull = Inr (JStr ''media'')"
    using ev by (simp add: dict_get_def)
  show ?thesis
    using l g md p by (simp add: twilio_to_openai_def media_frame_healthy[OF assms(1)])
qed

lemma start_frame_openai_ws: "openai_ws (snd (start_frame data s)) = openai_ws s"
  by (simp add: start_frame_def Let_def split: sum.splits)

lemma mark_frame_openai_ws: "openai_ws (snd (mark_frame data s)) = openai_ws s"
  by (simp add: mark_frame_def split: sum.splits)

lemma stop_frame_openai_ws: "openai_ws (snd (stop_frame s)) = openai_ws s"
  by (simp add: stop_frame_def split: sum.splits)

lemma twilio_openai_ws:
  assumes "capacity (openai_ws s) = None"
  shows "openai_ws (snd (twilio_to_openai e m s)) =
           (openai_ws s)\<lparr>sent := sent (openai_ws s) @ media_commands (loads e m)\<rparr>"
proof (cases "media_payload (loads e m)")
  case (Some p)
  then show ?thesis using twilio_media_healthy[OF assms Some]
    by (simp add: media_commands_def)
next
  case None
  then have mc: "media_commands (loads e m) = []" by (simp add: media_commands_def)
  show ?thesis
  proof (cases "loads e m")
    case (Inl err)
    then show ?thesis using mc by (simp add: twilio_to_openai_def)
  next
    case (Inr data)
    show ?thesis
    proof (cases data)
      case (JDict kvs)
      have "dict_get kvs ''event'' JNull = JStr ''media'' \<Longrightarrow>
            openai_ws (snd (media_frame (JDict kvs) s)) = openai_ws s"
        using None Inr JDict
        by (simp add: media_frame_healthy[OF assms] split: json.splits)
      then show ?thesis using Inr JDict mc
        by (simp add: twilio_to_openai_def dict_get_def start_frame_openai_ws
              mark_frame_openai_ws stop_frame_openai_ws)
    qed (use Inr mc in \<open>simp_all add: twilio_to_openai_def\<close>)
  qed
qed


lemma audio_delta_openai_ws: "openai_ws (snd (audio_delta_event ev s)) = openai_ws s"
  by (simp add: audio_delta_event_def split: sum.splits prod.splits option.splits)

lemma item_created_openai_ws: "openai_ws (snd (item_created_event ev s)) = openai_ws s"
  by (simp add: item_created_event_def Let_def
           split: sum.splits prod.splits option.splits json.splits)

lemma function_call_non_dict:
  "\<forall>kvs. ev \<noteq> JDict kvs \<Longrightarrow> snd (function_call_event e ev s) = s"
  by (cases ev) (simp_all add: function_call_event_def)

text \<open>What one event of the model makes the pump send to the model.\<close>

lemma openai_openai_ws:
  assumes "capacity (openai_ws s) = None"
  shows "\<exists>ys. openai_ws (snd (openai_to_twilio e ev s)) =
                 (openai_ws s)\<lparr>sent := sent (openai_ws s) @ ys\<rparr>
              \<and> (ys = [] \<or> (\<exists>cid r. ys = [function_output e cid r, response_create]))"
proof (cases "\<exists>kvs. ev = JDict kvs
                \<and> dict_get kvs ''type'' JNull = JStr ''response.function_call_arguments.done''")
  case True
  then obtain kvs where ev: "ev = JDict kvs"
    and ty: "dict_get kvs ''type'' JNull = JStr ''response.function_call_arguments.done''"
    by blast
  have "openai_to_twilio e ev s = function_call_event e (JDict kvs) s"
    using ev ty by (simp add: openai_to_twilio_def dict_get_def)
  then show ?thesis using function_call_event_healthy[OF assms, of e kvs] by auto
next
  case False
  have "openai_ws (snd (openai_to_twilio e ev s)) = openai_ws s"
  proof (cases ev)
    case (JDict kvs)
    then show ?thesis using False
      by (simp add: openai_to_twilio_def dict_get_def audio_delta_openai_ws
            item_created_openai_ws)
  qed (simp_all add: openai_to_twilio_def)
  then show ?thesis by (intro exI[of _ "[]"]) simp
qed



lemma not_output_append [simp]: "\<not> is_function_output (audio_append p)"
  by (simp add: is_function_output_def audio_append_def)

lemma not_output_resume [simp]: "\<not> is_function_output response_create"
  by (simp add: is_function_output_def response_create_def)

lemma not_append_output [simp]: "\<not> is_audio_append (function_output e cid r)"
  by (simp add: is_audio_append_def function_output_def)

lemma not_append_resume [simp]: "\<not> is_audio_append response_create"
  by (simp add: is_audio_append_def response_create_def)

lemma is_append_append [simp]: "is_audio_append (audio_append p)"
  by (simp add: is_audio_append_def audio_append_def)

lemma paired_media_commands: "paired (media_commands r)"
  by (simp add: media_commands_def split: option.splits)

lemma filter_media_commands:
  "filter is_audio_append (media_commands r) = media_commands r"
  by (simp add: media_commands_def split: option.splits)

text \<open>One step of the run, seen from the model connection.\<close>

lemma pump_step_openai_ws:
  assumes "capacity (openai_ws s) = None"
  shows "\<exists>ys. openai_ws (pump_step e i s) = (openai_ws s)\<lparr>sent := sent (openai_ws s) @ ys\<rparr>
              \<and> paired ys
              \<and> filter is_audio_append ys =
                  (case i of Telephony m \<Rightarrow> if twilio_done s then [] else media_commands (loads e m)
                   | _ \<Rightarrow> [])"
proof (cases i)
  case (Telephony m)
  show ?thesis
  proof (cases "twilio_done s")
    case True
    then show ?thesis using Telephony by (intro exI[of _ "[]"]) simp
  next
    case False
    have "openai_ws (pump_step e i s) = openai_ws (snd (twilio_to_openai e m s))"
      using False Telephony by (simp split: prod.splits outcome.splits)
    then show ?thesis using twilio_openai_ws[OF assms, of e m] False Telephony
      by (intro exI[of _ "media_commands (loads e m)"])
         (simp add: paired_media_commands filter_media_commands)
  qed
next
  case (Model ev)
  show ?thesis
  proof (cases "openai_done s")
    case True
    then show ?thesis using Model by (intro exI[of _ "[]"]) simp
  next
    case False
    have "openai_ws (pump_step e i s) = openai_ws (snd (openai_to_twilio e ev s))"
      using False Model by (simp split: prod.splits outcome.splits)
    moreover obtain ys where
      "openai_ws (snd (openai_to_twilio e ev s)) = (openai_ws s)\<lparr>sent := sent (openai_ws s) @ ys\<rparr>"
      "ys = [] \<or> (\<exists>cid r. ys = [function_output e cid r, response_create])"
      using openai_openai_ws[OF assms] by blast
    ultimately show ?thesis using Model by (intro exI[of _ ys]) auto
  qed
qed (intro exI[of _ "[]"], simp)+




lemma pump_step_model_twilio_done:
  "twilio_done (pump_step e (Model ev) s) = twilio_done s"
proof -
  obtain out s' where r: "openai_to_twilio e ev s = (out, s')" by force
  have "same_call s s'" using openai_to_twilio_same[of s e ev] r by simp
  then show ?thesis using r by (cases out) (simp_all add: same_call_def)
qed

lemma gather_openai_ws_healthy:
  "capacity (openai_ws s) = None \<Longrightarrow> capacity (openai_ws (gather e inputs s)) = None"
proof (induction inputs arbitrary: s)
  case (Cons i inputs)
  obtain ys where "openai_ws (pump_step e i s) = (openai_ws s)\<lparr>sent := sent (openai_ws s) @ ys\<rparr>"
    using pump_step_openai_ws[OF Cons.prems] by blast
  then have "capacity (openai_ws (pump_step e i s)) = None" using Cons.prems by simp
  then show ?case using Cons.IH by simp
qed simp


lemmas sample_defs =
  sample_env_def sample_loads_def start_CA1_MZ1_def start_CA1_MZ2_def media_AAA_def
  media_empty_def stop_text_def order_args_def start_json_def media_json_def
  idle_state_def new_channel_def empty_database_def

lemmas pump_defs =
  twilio_to_openai_def start_frame_def media_frame_def mark_frame_def stop_frame_def
  openai_to_twilio_def audio_delta_event_def item_created_event_def function_call_event_def
  send_in_handler_def send_function_result_def send_audio_def chan_send_def
  create_call_record_def end_call_record_def log_conversation_def dict_get_def json_loads_def














section \<open>Properties of the telephony-to-model pump\<close>

text \<open>
  Claim C1, as the code has it. Take a run in which every telephony frame is a media
  frame, the socket does not close, the pump is running and the model connection works.
  Then the audio commands that the model connection receives during the run are exactly
  the payloads of the frames that are true in Python's sense (a non-empty string), each
  once and in arrival order, whatever events of the model arrive in between. A media
  frame with an empty or missing payload is skipped by the test \<open>if audio_payload\<close>.
\<close>

theorem media_payloads_forwarded:
  assumes "\<forall>m \<in> set (telephony_messages inputs). media_payload (loads e m) \<noteq> None"
    and "TelephonyClosed \<notin> set inputs"
    and "\<not> twilio_done s"
    and "capacity (openai_ws s) = None"
  shows "filter is_audio_append (sent (openai_ws (gather e inputs s))) =
           filter is_audio_append (sent (openai_ws s))
           @ map audio_append (filter py_truthy (media_payloads e inputs))"
  using assms
proof (induction inputs arbitrary: s)
  case Nil
  then show ?case by simp
next
  case (Cons i inputs)
  obtain ys where ys:
    "openai_ws (pump_step e i s) = (openai_ws s)\<lparr>sent := sent (openai_ws s) @ ys\<rparr>"
    "filter is_audio_append ys =
       (case i of Telephony m \<Rightarrow> if twilio_done s then [] else media_commands (loads e m)
        | _ \<Rightarrow> [])"
    using pump_step_openai_ws[OF Cons.prems(4)] by blast
  have cap: "capacity (openai_ws (pump_step e i s)) = None"
    using ys(1) Cons.prems(4) by simp
  have rest: "\<forall>m \<in> set (telephony_messages inputs). media_payload (loads e m) \<noteq> None"
       "TelephonyClosed \<notin> set inputs"
    using Cons.prems(1,2) by (cases i; simp)+
  have running: "\<not> twilio_done (pump_step e i s)"
  proof (cases i)
    case (Telephony m)
    then obtain p where "media_payload (loads e m) = Some p" using Cons.prems(1) by auto
    then show ?thesis
      using Telephony Cons.prems(3) twilio_media_healthy[OF Cons.prems(4)] by simp
  next
    case (Model ev)
    then show ?thesis using Cons.prems(3) pump_step_model_twilio_done by simp
  qed (use Cons.prems in simp_all)
  have here: "filter is_audio_append ys @ map audio_append (filter py_truthy (media_payloads e inputs))
              = map audio_append (filter py_truthy (media_payloads e (i # inputs)))"
    using ys(2) Cons.prems(1,3)
    by (cases i) (auto simp: media_commands_def split: option.splits)
  have "filter is_audio_append (sent (openai_ws (gather e (i # inputs) s))) =
        filter is_audio_append (sent (openai_ws (pump_step e i s)))
        @ map audio_append (filter py_truthy (media_payloads e inputs))"
    using Cons.IH[OF rest running cap] by simp
  also have "\<dots> = filter is_audio_append (sent (openai_ws s))
        @ (filter is_audio_append ys @ map audio_append (filter py_truthy (media_payloads e inputs)))"
    using ys(1) by simp
  finally show ?case using here by simp
qed

theorem media_payloads_forwarded_witness:
  "media_payload (loads sample_env media_AAA) = Some (JStr ''AAA='')
   \<and> \<not> twilio_done idle_state \<and> capacity (openai_ws idle_state) = None
   \<and> filter is_audio_append (sent (openai_ws (gather sample_env
        [Telephony media_AAA, Model (JDict [(''type'', JStr ''response.done'')]),
         Telephony media_AAA] idle_state)))
      = [audio_append (JStr ''AAA=''), audio_append (JStr ''AAA='')]"
  using media_payloads_forwarded
          [of "[Telephony media_AAA, Model (JDict [(''type'', JStr ''response.done'')]),
                Telephony media_AAA]" sample_env idle_state]
  by (simp add: sample_defs dict_get_def)

text \<open>
  Claim C1 as stated fails: a media frame whose payload is the empty string is a payload
  of the run, the pump goes on, and nothing is sent to the model.
\<close>

theorem empty_payload_not_forwarded:
  "media_payloads sample_env [Telephony media_empty] = [JStr []]
   \<and> sent (openai_ws (gather sample_env [Telephony media_empty] idle_state)) = []
   \<and> \<not> twilio_done (gather sample_env [Telephony media_empty] idle_state)"
  by (simp add: sample_defs pump_defs)

text \<open>
  Claim C3, as the code has it. The registry is a plain dictionary and the \<open>start\<close>
  branch assigns into it. A start frame whose \<open>start\<close> and \<open>customParameters\<close> fields
  are dictionaries and whose call identifier is hashable is handled without error, whether
  or not the identifier is already registered, and afterwards the registry holds, under
  that identifier, the session built from this frame. A dictionary holds one value for a
  key, so an identifier never has two sessions.
\<close>

theorem start_frame_replaces_entry:
  assumes "loads e m = Inr (JDict kvs)"
    and "dict_get kvs ''event'' JNull = JStr ''start''"
    and "dict_get kvs ''start'' (JDict []) = JDict st"
    and "dict_get st ''customParameters'' (JDict []) = JDict cp"
    and "dict_key (dict_get st ''callSid'' JNull) = Inr k"
  shows "fst (twilio_to_openai e m s) = Continue
         \<and> active_sessions (snd (twilio_to_openai e m s)) =
             (active_sessions s)
               (k \<mapsto> [(''call_sid'', dict_get st ''callSid'' JNull),
                     (''stream_sid'', dict_get st ''streamSid'' JNull),
                     (''openai_session_id'', JStr (session_id s)),
                     (''from_number'', dict_get cp ''from'' (JStr []))])"
  using assms
  by (simp add: twilio_to_openai_def start_frame_def create_call_record_def dict_get_def Let_def)

theorem start_frame_replaces_entry_witness:
  "loads sample_env start_CA1_MZ2 = Inr (start_json ''CA1'' ''MZ2'')
   \<and> active_sessions (gather sample_env [Telephony start_CA1_MZ1] idle_state) (JStr ''CA1'')
       = Some [(''call_sid'', JStr ''CA1''), (''stream_sid'', JStr ''MZ1''),
               (''openai_session_id'', JStr []), (''from_number'', JStr ''+919876543210'')]
   \<and> fst (twilio_to_openai sample_env start_CA1_MZ2
             (gather sample_env [Telephony start_CA1_MZ1] idle_state)) = Continue
   \<and> active_sessions (snd (twilio_to_openai sample_env start_CA1_MZ2
             (gather sample_env [Telephony start_CA1_MZ1] idle_state))) (JStr ''CA1'')
       = Some [(''call_sid'', JStr ''CA1''), (''stream_sid'', JStr ''MZ2''),
               (''openai_session_id'', JStr []), (''from_number'', JStr ''+919876543210'')]"
proof -
  have l: "loads sample_env start_CA1_MZ2 = Inr (start_json ''CA1'' ''MZ2'')"
    by (simp add: sample_defs)
  have first: "active_sessions (gather sample_env [Telephony start_CA1_MZ1] idle_state) (JStr ''CA1'')
       = Some [(''call_sid'', JStr ''CA1''), (''stream_sid'', JStr ''MZ1''),
               (''openai_session_id'', JStr []), (''from_number'', JStr ''+919876543210'')]"
     and sid: "session_id (gather sample_env [Telephony start_CA1_MZ1] idle_state) = []"
    by (simp_all add: sample_defs pump_defs Let_def)
  note t = start_frame_replaces_entry
      [of sample_env start_CA1_MZ2 _ _ _ "JStr ''CA1''"
          "gather sample_env [Telephony start_CA1_MZ1] idle_state",
       OF l [unfolded start_json_def]]
  have "fst (twilio_to_openai sample_env start_CA1_MZ2
             (gather sample_env [Telephony start_CA1_MZ1] idle_state)) = Continue
        \<and> active_sessions (snd (twilio_to_openai sample_env start_CA1_MZ2
             (gather sample_env [Telephony start_CA1_MZ1] idle_state))) (JStr ''CA1'')
       = Some [(''call_sid'', JStr ''CA1''), (''stream_sid'', JStr ''MZ2''),
               (''openai_session_id'', JStr []), (''from_number'', JStr ''+919876543210'')]"
    using t [of "[(''callSid'', JStr ''CA1''), (''streamSid'', JStr ''MZ2''),
               (''customParameters'', JDict [(''from'', JStr ''+919876543210'')])]"
               "[(''from'', JStr ''+919876543210'')]"] sid
    by (simp add: dict_get_def)
  then show ?thesis using l first by simp
qed

text \<open>
  Claim C3 as stated fails: a second start frame for a registered identifier raises
  nothing, the pump goes on, and the entry of the first session is replaced.
\<close>

theorem second_start_replaces_silently:
  "active_sessions (gather sample_env [Telephony start_CA1_MZ1] idle_state) (JStr ''CA1'')
       = Some [(''call_sid'', JStr ''CA1''), (''stream_sid'', JStr ''MZ1''),
               (''openai_session_id'', JStr []), (''from_number'', JStr ''+919876543210'')]
   \<and> fst (twilio_to_openai sample_env start_CA1_MZ2
             (gather sample_env [Telephony start_CA1_MZ1] idle_state)) = Continue
   \<and> \<not> twilio_done (gather sample_env [Telephony start_CA1_MZ1, Telephony start_CA1_MZ2]
                       idle_state)
   \<and> active_sessions (gather sample_env [Telephony start_CA1_MZ1, Telephony start_CA1_MZ2]
                       idle_state) (JStr ''CA1'')
       = Some [(''call_sid'', JStr ''CA1''), (''stream_sid'', JStr ''MZ2''),
               (''openai_session_id'', JStr []), (''from_number'', JStr ''+919876543210'')]"
  by (simp add: sample_defs pump_defs Let_def)

text \<open>
  Claim C7, as the code has it. \<open>json.loads\<close> is called inside the \<open>try\<close> that
  surrounds the whole loop. A frame that fails to decode changes nothing in the state of
  the call, but it ends the telephony-to-model pump: the run continues as if the pump had
  finished, and no later telephony frame has any effect. The other pump and the handler
  are not affected.
\<close>

theorem decode_failure_ends_pump:
  assumes "loads e m = Inl err" and "\<not> twilio_done s"
  shows "gather e (Telephony m # rest) s = gather e rest (s\<lparr>twilio_done := True\<rparr>)
         \<and> gather e (map Telephony ms) (s\<lparr>twilio_done := True\<rparr>) = s\<lparr>twilio_done := True\<rparr>"
proof
  show "gather e (Telephony m # rest) s = gather e rest (s\<lparr>twilio_done := True\<rparr>)"
    using assms by (simp add: twilio_to_openai_def)
  show "gather e (map Telephony ms) (s\<lparr>twilio_done := True\<rparr>) = s\<lparr>twilio_done := True\<rparr>"
    by (induction ms) simp_all
qed

theorem decode_failure_ends_pump_witness:
  "loads sample_env ''not json'' = Inl (JSONDecodeError ''Expecting value: line 1 column 1 (char 0)'')
   \<and> \<not> twilio_done idle_state
   \<and> gather sample_env (Telephony ''not json'' # map Telephony [media_AAA, stop_text]) idle_state
       = idle_state\<lparr>twilio_done := True\<rparr>"
  using decode_failure_ends_pump
          [of sample_env "''not json''" "JSONDecodeError ''Expecting value: line 1 column 1 (char 0)''"
              idle_state "map Telephony [media_AAA, stop_text]" "[media_AAA, stop_text]"]
  by (simp add: sample_defs)

text \<open>
  Claim C7 as stated fails: after a text that is not JSON the pump has ended, and a media
  frame that follows is not forwarded, although the same frame alone is.
\<close>

theorem malformed_frame_stops_forwarding:
  "twilio_done (gather sample_env [Telephony ''not json''] idle_state)
   \<and> sent (openai_ws (gather sample_env [Telephony ''not json'', Telephony media_AAA] idle_state))
       = []
   \<and> sent (openai_ws (gather sample_env [Telephony media_AAA] idle_state))
       = [audio_append (JStr ''AAA='')]"
  by (simp add: sample_defs pump_defs)

section \<open>Properties of the model-to-telephony pump\<close>





text \<open>
  Claim C9, as the code has it. For a \<open>conversation.item.created\<close> event whose item has
  an empty content list the pump goes on, no transcript line is written and no fragment
  is read. The item is appended to the conversation log of the persistence service when
  the call identifier is set (true in Python's sense), and only then: the code tests
  \<open>if call_sid:\<close> before it logs.
\<close>

theorem empty_content_skips_transcript:
  assumes "dict_get kvs ''type'' JNull = JStr ''conversation.item.created''"
    and "dict_get kvs ''item'' (JDict []) = JDict item"
    and "dict_get item ''content'' (JList []) = JList []"
    and "dict_key (call_sid s) = Inr k"
  shows "fst (openai_to_twilio e (JDict kvs) s) = Continue
         \<and> transcript (snd (openai_to_twilio e (JDict kvs) s)) = transcript s
         \<and> db_service (snd (openai_to_twilio e (JDict kvs) s)) =
             (if py_truthy (call_sid s)
              then (db_service s)\<lparr>conversations_cache :=
                     (conversations_cache (db_service s))
                       (k \<mapsto> (case conversations_cache (db_service s) k of
                                 None \<Rightarrow> [] | Some es \<Rightarrow> es)
                               @ [ [(''call_sid'', call_sid s),
                                   (''item_id'', dict_get item ''id'' JNull),
                                   (''item_type'', dict_get item ''type'' JNull),
                                   (''role'', dict_get item ''role'' JNull),
                                   (''content'', JList [])] ])\<rparr>
              else db_service s)"
proof -
  have ev: "openai_to_twilio e (JDict kvs) s = item_created_event (JDict kvs) s"
    using assms(1) by (simp add: openai_to_twilio_def dict_get_def)
  have tl: "transcript_line item = Inr None"
    using assms(3) by (simp add: transcript_line_def Let_def)
  have it: "py_get (JDict kvs) ''item'' (JDict []) = Inr (JDict item)"
    using assms(2) by (simp add: dict_get_def)
  show ?thesis
    unfolding ev item_created_event_def it
    using tl assms(3,4)
    by (simp add: log_conversation_def Let_def)
qed

theorem empty_content_skips_transcript_witness:
  "dict_key (call_sid (gather sample_env [Telephony start_CA1_MZ1] idle_state)) = Inr (JStr ''CA1'')
   \<and> fst (openai_to_twilio sample_env empty_item_event
            (gather sample_env [Telephony start_CA1_MZ1] idle_state)) = Continue
   \<and> transcript (snd (openai_to_twilio sample_env empty_item_event
            (gather sample_env [Telephony start_CA1_MZ1] idle_state))) = []
   \<and> conversations_cache (db_service (snd (openai_to_twilio sample_env empty_item_event
            (gather sample_env [Telephony start_CA1_MZ1] idle_state)))) (JStr ''CA1'')
       = Some [ [(''call_sid'', JStr ''CA1''), (''item_id'', JStr ''item1''),
                (''item_type'', JStr ''message''), (''role'', JStr ''assistant''),
                (''content'', JList [])] ]"
proof -
  have st: "call_sid (gather sample_env [Telephony start_CA1_MZ1] idle_state) = JStr ''CA1''"
       "transcript (gather sample_env [Telephony start_CA1_MZ1] idle_state) = []"
       "conversations_cache (db_service (gather sample_env [Telephony start_CA1_MZ1] idle_state))
          (JStr ''CA1'') = None"
    by (simp_all add: sample_defs pump_defs Let_def)
  have k: "dict_key (call_sid (gather sample_env [Telephony start_CA1_MZ1] idle_state))
            = Inr (JStr ''CA1'')"
    using st(1) by simp
  show ?thesis
    unfolding empty_item_event_def
    using empty_content_skips_transcript
            [OF _ _ _ k, of _ "[(''id'', JStr ''item1''), (''type'', JStr ''message''),
                              (''role'', JStr ''assistant''), (''content'', JList [])]" sample_env]
          st k
    by (simp add: dict_get_def)
qed

text \<open>
  Claim C9 as stated fails: before a start frame has set the call identifier, the item of
  such an event is not passed to the persistence service.
\<close>

theorem item_before_start_not_logged:
  "fst (openai_to_twilio sample_env empty_item_event idle_state) = Continue
   \<and> db_service (snd (openai_to_twilio sample_env empty_item_event idle_state))
       = db_service idle_state"
  by (simp add: sample_defs pump_defs empty_item_event_def transcript_line_def Let_def)



section \<open>Properties of the handler\<close>



section \<open>Properties of the tool dispatcher\<close>

text \<open>
  Claim C5. For every function name that is none of the four declared tools, and for every
  argument value, call identifier and database, \<open>execute_tool\<close> answers with the payload
  whose \<open>error\<close> field is "Unknown function: " followed by the name, and leaves the
  database as it was. The dispatcher returns a payload on every path: its result type has
  no exception in it.
\<close>

theorem unknown_function_payload:
  assumes "function_name \<notin> {JStr ''lookup_order'', JStr ''transfer_to_human'',
             JStr ''check_product_availability'', JStr ''create_ticket''}"
  shows "execute_tool e function_name arguments cs db = (unknown_function e function_name, db)
         \<and> py_get (unknown_function e function_name) ''error'' JNull
             = Inr (JStr (''Unknown function: '' @ py_str e function_name))"
  using assms by (simp add: execute_tool_def unknown_function_def)

theorem unknown_function_payload_witness:
  "JStr ''cancel_order'' \<notin> {JStr ''lookup_order'', JStr ''transfer_to_human'',
       JStr ''check_product_availability'', JStr ''create_ticket''}
   \<and> fst (execute_tool sample_env (JStr ''cancel_order'') (JDict []) (JStr ''CA1'') empty_database)
       = JDict [(''error'', JStr ''Unknown function: cancel_order''),
                (''message'', JStr (''I'' @ [CHR 0x27] @ ''m so'' @ ''rry, I couldn''
                                    @ [CHR 0x27] @ ''t process that request.''))]"
  using unknown_function_payload
          [of "JStr ''cancel_order''" sample_env "JDict []" "JStr ''CA1''" empty_database]
  by (simp add: unknown_function_def py_str_def)

text \<open>
  Claim C8. Dispatching \<open>lookup_order\<close> with an argument dictionary reads \<open>order_id\<close> from
  it and asks the persistence service. When the order query answers with a record, that
  record is the result; when the query fails, the result is the dictionary with
  \<open>error\<close> "Order not found" and the requested \<open>order_id\<close>.
\<close>

theorem lookup_order_result:
  "(\<forall>order. order_query e (dict_get args ''order_id'' JNull) = Inr (JDict order) \<longrightarrow>
       execute_tool e (JStr ''lookup_order'') (JDict args) cs db = (JDict order, db)) \<and>
   (\<forall>err. order_query e (dict_get args ''order_id'' JNull) = Inl err \<longrightarrow>
       execute_tool e (JStr ''lookup_order'') (JDict args) cs db =
         (JDict [(''error'', JStr ''Order not found''),
                 (''order_id'', dict_get args ''order_id'' JNull)], db))"
  by (simp add: execute_tool_def get_order_details_def dict_get_def)

theorem lookup_order_result_witness:
  "order_query sample_env (dict_get [(''order_id'', JStr ''ORD1'')] ''order_id'' JNull)
     = Inr (mock_order (JStr ''ORD1''))
   \<and> execute_tool sample_env (JStr ''lookup_order'') (JDict [(''order_id'', JStr ''ORD1'')])
        (JStr ''CA1'') empty_database = (mock_order (JStr ''ORD1''), empty_database)
   \<and> order_query (sample_env\<lparr>order_query := failing_query\<rparr>)
        (dict_get [(''order_id'', JStr ''ORD1'')] ''order_id'' JNull)
     = Inl (TransportError ''database unavailable'')
   \<and> execute_tool (sample_env\<lparr>order_query := failing_query\<rparr>) (JStr ''lookup_order'')
        (JDict [(''order_id'', JStr ''ORD1'')]) (JStr ''CA1'') empty_database
     = (JDict [(''error'', JStr ''Order not found''), (''order_id'', JStr ''ORD1'')],
        empty_database)"
  using lookup_order_result
          [of sample_env "[(''order_id'', JStr ''ORD1'')]" "JStr ''CA1''" empty_database]
        lookup_order_result
          [of "sample_env\<lparr>order_query := failing_query\<rparr>" "[(''order_id'', JStr ''ORD1'')]"
              "JStr ''CA1''" empty_database]
  by (simp add: sample_env_def mock_order_query_def mock_order_def failing_query_def
                dict_get_def)
end
